theory Spec2Isabelle
  imports Main "HOL-Library.Sublist"
begin

section \<open>JavaScript values and strings\<close>

text \<open>
  A JavaScript string is modelled as an Isabelle \<open>string\<close>: each \<open>char\<close> stands for the
  UTF-16 code unit with the same number, so the model covers the strings whose code units
  lie in the Latin-1 range (0 to 255). Glyphs outside that range (the emoji icons) are kept
  as lists of Unicode code points.

  A field of a JSON object read by the user interface is a \<open>jsval\<close>: missing
  (\<open>Undefined\<close>), \<open>null\<close>, or a string.
\<close>

datatype jsval = Undefined | Null | Str string

type_synonym icon = "nat list"

text \<open>JavaScript truthiness: \<open>undefined\<close>, \<open>null\<close> and the empty string are falsy.\<close>

fun truthy :: "jsval \<Rightarrow> bool" where
  "truthy Undefined = False"
| "truthy Null = False"
| "truthy (Str s) = (s \<noteq> [])"

text \<open>
  \<open>String.prototype.toLowerCase\<close> on the Latin-1 range: the letters A to Z and the
  accented capitals U+00C0 to U+00DE (without the multiplication sign U+00D7) move up
  by 32; every other code unit stays.
\<close>

definition lower_char :: "char \<Rightarrow> char" where
  "lower_char c =
     (let n = (of_char c :: nat)
      in if (65 \<le> n \<and> n \<le> 90) \<or> (192 \<le> n \<and> n \<le> 222 \<and> n \<noteq> 215)
         then char_of (n + 32) else c)"

definition toLowerCase :: "string \<Rightarrow> string" where
  "toLowerCase s = map lower_char s"

text \<open>
  \<open>String.prototype.includes\<close>: the search string starts at some position of the
  receiver.
\<close>

fun str_includes :: "string \<Rightarrow> string \<Rightarrow> bool" where
  "str_includes [] k = (k = [])"
| "str_includes (c # cs) k = (prefix k (c # cs) \<or> str_includes cs k)"

text \<open>
  \<open>String.prototype.trim\<close> removes white space and line terminators from both ends; in
  the Latin-1 range these are the code units 9 to 13, 32 and 160.
\<close>

definition is_space :: "char \<Rightarrow> bool" where
  "is_space c = (let n = (of_char c :: nat) in (9 \<le> n \<and> n \<le> 13) \<or> n = 32 \<or> n = 160)"

definition trim :: "string \<Rightarrow> string" where
  "trim s = rev (dropWhile is_space (rev (dropWhile is_space s)))"

section \<open>Admin dashboard: category icons\<close>

text \<open>
  The keyword table of \<open>getCategoryIcon\<close>, in declaration order (the order in which
  \<open>Object.entries\<close> lists string keys).
\<close>

definition iconMap :: "(string \<times> icon) list" where
  "iconMap =
    [(''Network'', [0x1F310]),
     (''Hardware'', [0x1F6E0, 0xFE0F]),
     (''Software'', [0x1F4BB]),
     (''Account'', [0x1F464]),
     (''Facility'', [0x1F3E2]),
     (''Password'', [0x1F511]),
     (''VPN'', [0x1F512]),
     (''Wi-Fi'', [0x1F4E1]),
     (''Printer'', [0x1F5A8, 0xFE0F]),
     (''Access'', [0x1F513]),
     (''Email'', [0x1F4E7]),
     (''Laptop'', [0x1F4BB]),
     (''Desktop'', [0x1F5A5, 0xFE0F]),
     (''Monitor'', [0x1F5A5, 0xFE0F]),
     (''Keyboard'', [0x2328, 0xFE0F]),
     (''Mouse'', [0x1F5B1, 0xFE0F]),
     (''License'', [0x1F4DC]),
     (''Permission'', [0x1F6E1, 0xFE0F]),
     (''Slack'', [0x1F4AC]),
     (''Zoom'', [0x1F4F9]),
     (''Azure'', [0x2601, 0xFE0F]),
     (''AWS'', [0x2601, 0xFE0F]),
     (''HR'', [0x1F465]),
     (''Finance'', [0x1F4B0]),
     (''Security'', [0x1F6E1, 0xFE0F]),
     (''Meeting'', [0x1F91D]),
     (''Audio'', [0x1F50A]),
     (''Video'', [0x1F3AC])]"

definition fallback_icon :: icon where
  "fallback_icon = [0x1F4CB]"

text \<open>The \<open>for\<close> loop over the table entries, returning at the first match.\<close>

fun icon_loop :: "(string \<times> icon) list \<Rightarrow> string \<Rightarrow> icon" where
  "icon_loop [] category = fallback_icon"
| "icon_loop ((key, icon) # rest) category =
     (if str_includes (toLowerCase category) (toLowerCase key) then icon
      else icon_loop rest category)"

definition getCategoryIcon :: "string \<Rightarrow> icon" where
  "getCategoryIcon category = icon_loop iconMap category"

section \<open>Admin dashboard: tickets and filters\<close>

record history_item =
  h_role :: jsval
  h_message :: jsval
  h_time :: jsval

text \<open>A ticket as delivered by \<open>GET /tickets\<close>; \<open>ticket_id\<close> is the field \<open>id\<close>.\<close>

record ticket =
  ticket_id :: string
  query :: jsval
  title :: jsval
  status :: jsval
  category :: jsval
  subcategory :: jsval
  group_id :: jsval
  ai_draft :: jsval
  admin_draft :: jsval
  history :: "history_item list"

text \<open>The predicate passed to \<open>tickets.filter\<close> for \<open>escalatedTickets\<close>.\<close>

definition escalated :: "string \<Rightarrow> string \<Rightarrow> ticket \<Rightarrow> bool" where
  "escalated categoryFilter subcategoryFilter t =
     (if status t \<noteq> Str ''Pending'' \<and> status t \<noteq> Str ''Awaiting Info'' then False
      else if categoryFilter \<noteq> ''All'' \<and> category t \<noteq> Str categoryFilter then False
      else if subcategoryFilter \<noteq> ''All'' \<and> subcategory t \<noteq> Str subcategoryFilter then False
      else True)"

definition escalatedTickets :: "ticket list \<Rightarrow> string \<Rightarrow> string \<Rightarrow> ticket list" where
  "escalatedTickets tickets categoryFilter subcategoryFilter =
     filter (escalated categoryFilter subcategoryFilter) tickets"

text \<open>
  \<open>new Set(xs)\<close> spread into an array: the elements in the order of their first
  occurrence, each once.
\<close>

definition set_add :: "'a list \<Rightarrow> 'a \<Rightarrow> 'a list" where
  "set_add acc x = (if x \<in> set acc then acc else acc @ [x])"

definition new_Set :: "'a list \<Rightarrow> 'a list" where
  "new_Set xs = foldl set_add [] xs"

definition activeSubcategories :: "ticket list \<Rightarrow> string \<Rightarrow> jsval list" where
  "activeSubcategories tickets categoryFilter =
     Str ''All'' #
     new_Set
       (filter truthy
         (map subcategory
           (filter (\<lambda>t. category t = Str categoryFilter \<and>
                         (status t = Str ''Pending'' \<or> status t = Str ''Awaiting Info''))
              tickets)))"

subsection \<open>The ticket card\<close>

definition groupedTickets :: "ticket list \<Rightarrow> ticket \<Rightarrow> ticket list" where
  "groupedTickets tickets ticket =
     filter (\<lambda>t. group_id t = group_id ticket \<and> status t = Str ''Pending'') tickets"

definition isGrouped :: "ticket list \<Rightarrow> ticket \<Rightarrow> bool" where
  "isGrouped tickets ticket = (length (groupedTickets tickets ticket) > 1)"

definition otherCount :: "ticket list \<Rightarrow> ticket \<Rightarrow> int" where
  "otherCount tickets ticket = int (length (groupedTickets tickets ticket)) - 1"

text \<open>
  The own properties of \<open>categoryStyles\<close>: colour and icon per category.
\<close>

definition categoryStyles :: "(string \<times> string \<times> icon) list" where
  "categoryStyles =
    [(''Network'', ''#3B82F6'', [0x1F310]),
     (''Hardware'', ''#F97316'', [0x1F6E0, 0xFE0F]),
     (''Software'', ''#8B5CF6'', [0x1F4BB]),
     (''Account'', ''#10B981'', [0x1F464]),
     (''Facility'', ''#6B7280'', [0x1F3E2]),
     (''Security'', ''#EF4444'', [0x1F6E1, 0xFE0F])]"

text \<open>
  The names an object literal inherits from \<open>Object.prototype\<close>. Looking one of them up
  in \<open>categoryStyles\<close> yields a function or an object, which is truthy and has neither
  \<open>bg\<close> nor \<open>icon\<close>.
\<close>

definition object_prototype_names :: "string list" where
  "object_prototype_names =
    [''constructor'', ''__defineGetter__'', ''__defineSetter__'', ''hasOwnProperty'',
     ''__lookupGetter__'', ''__lookupSetter__'', ''isPrototypeOf'', ''propertyIsEnumerable'',
     ''toString'', ''valueOf'', ''__proto__'', ''toLocaleString'']"

text \<open>
  \<open>categoryStyles[ticket.category] || { bg: '#6B7280', icon: clipboard }\<close>: the colour
  (\<open>Undefined\<close> when the value found has none) and the icon (empty when there is none).
  An absent category is looked up under the name it prints as, which is no property.
\<close>

definition catStyle :: "ticket \<Rightarrow> jsval \<times> icon" where
  "catStyle ticket =
     (case category ticket of
        Str c \<Rightarrow>
          (case map_of categoryStyles c of
             Some (bg, ic) \<Rightarrow> (Str bg, ic)
           | None \<Rightarrow>
               if c \<in> set object_prototype_names then (Undefined, [])
               else (Str ''#6B7280'', [0x1F4CB]))
      | _ \<Rightarrow> (Str ''#6B7280'', [0x1F4CB]))"

text \<open>
  What the JSX of one card puts on the screen from its data: every expression in braces
  between the opening and the closing tag of the card, in document order (the badge with
  its colour, icon and category). The three buttons carry fixed labels. A ticket without
  a history shows the same as one with an empty history.
\<close>

record card =
  card_key :: string
  card_selected :: bool
  category_badge :: "(jsval \<times> icon \<times> string) option"
  subcategory_tag :: "string option"
  shown_id :: string
  ticket_subject :: jsval
  ticket_query :: jsval
  technical_context :: "jsval option"
  awaiting_badge :: bool
  draft_default :: jsval
  ticket_history :: "history_item list"

definition js_or :: "jsval \<Rightarrow> jsval \<Rightarrow> jsval" where
  "js_or a b = (if truthy a then a else b)"

definition ticket_card :: "ticket list \<Rightarrow> string list \<Rightarrow> ticket \<Rightarrow> card" where
  "ticket_card tickets selectedTicketIds ticket =
     (let grouped = isGrouped tickets ticket;
          others = otherCount tickets ticket;
          st = catStyle ticket
      in \<lparr> card_key = ticket_id ticket,
           card_selected = (ticket_id ticket \<in> set selectedTicketIds),
           category_badge =
             (case category ticket of
                Str c \<Rightarrow> if c \<noteq> [] then Some (fst st, snd st, c) else None
              | _ \<Rightarrow> None),
           subcategory_tag =
             (case subcategory ticket of
                Str sc \<Rightarrow> if sc \<noteq> [] then Some (''#'' @ sc) else None
              | _ \<Rightarrow> None),
           shown_id = ticket_id ticket,
           ticket_subject = js_or (title ticket) (Str ''Support Request''),
           ticket_query = query ticket,
           technical_context =
             (if truthy (admin_draft ticket) \<and> truthy (ai_draft ticket)
              then Some (ai_draft ticket) else None),
           awaiting_badge = (status ticket = Str ''Awaiting Info''),
           draft_default = js_or (admin_draft ticket) (ai_draft ticket),
           ticket_history = history ticket \<rparr>)"

definition escalated_grid :: "ticket list \<Rightarrow> string \<Rightarrow> string \<Rightarrow> string list \<Rightarrow> card list" where
  "escalated_grid tickets categoryFilter subcategoryFilter selectedTicketIds =
     map (ticket_card tickets selectedTicketIds)
       (escalatedTickets tickets categoryFilter subcategoryFilter)"

section \<open>Requests, responses and visible effects\<close>

text \<open>
  A chat message. The portal writes its role as one of the two string literals
  \<open>'ai'\<close> and \<open>'user'\<close>.
\<close>

datatype role = ai | user

record message =
  role :: role
  content :: string

datatype http_method = GET | POST | PUT | DELETE

text \<open>The JSON bodies the user interface sends, one constructor per shape.\<close>

datatype body =
    NoBody
  | TicketBody (b_query: string) (b_history: "message list option") (b_force_create: bool)
  | AnalyzeBody (b_message: string) (b_model_history: "(string \<times> string) list")
  | BroadcastBody (b_ticket_id: string) (b_final_answer: string)
  | BroadcastAllBody (b_final_answer_all: string) (b_ticket_ids: "string list")
  | AskBody (b_question: string)
  | KbBody (b_category: string) (b_kb_question: string) (b_resolution: string) (b_issue: string)

record request =
  meth :: http_method
  url :: string
  body :: body

text \<open>
  The outcome of an \<open>axios\<close> call: the promise rejects with an error (its message is
  kept) or resolves with the response data.
\<close>

datatype 'a response = Failed string | Ok 'a

text \<open>
  What a handler does besides updating the component state, in the order in which it
  happens: a request sent, a toast shown by \<open>showNotification\<close> (message and type), a
  blocking \<open>alert\<close>, or a line on the console.
\<close>

datatype effect =
    Http request
  | Notify string string
  | Alert string
  | ConsoleError string

definition API_URL :: string where
  "API_URL = ''http://localhost:8000''"

section \<open>Admin dashboard: state and handlers\<close>

text \<open>
  The confirmation popup of broadcast-one. Its \<open>onConfirm\<close> closure captures the ticket
  id and the answer read from the draft text area; they are kept as fields.
\<close>

record popup =
  p_title :: string
  p_message :: string
  p_icon :: icon
  p_ticketId :: string
  p_finalAnswer :: string

record admin_state =
  tickets :: "ticket list"
  confirmDelete :: "(string \<times> jsval) option"
  categoryFilter :: string
  subcategoryFilter :: string
  showBroadcastAll :: bool
  broadcastAllText :: string
  showDatabase :: bool
  viewMode :: string
  notification :: "(string \<times> string) option"
  confirmPopup :: "popup option"
  selectedTicketIds :: "string list"
  isConfirmingBroadcastAll :: bool
  showAskModal :: "ticket option"
  askQuestionText :: string

definition admin_init :: admin_state where
  "admin_init =
     \<lparr> tickets = [], confirmDelete = None, categoryFilter = ''All'',
       subcategoryFilter = ''All'', showBroadcastAll = False, broadcastAllText = [],
       showDatabase = False, viewMode = ''admin'', notification = None,
       confirmPopup = None, selectedTicketIds = [], isConfirmingBroadcastAll = False,
       showAskModal = None, askQuestionText = [] \<rparr>"

text \<open>
  \<open>showNotification(message, type = 'success')\<close>; the timer that hides the toast after four
  seconds is not part of the model.
\<close>

definition showNotification :: "admin_state \<Rightarrow> string \<Rightarrow> string \<Rightarrow> admin_state \<times> effect list" where
  "showNotification s msg ty = (s\<lparr>notification := Some (msg, ty)\<rparr>, [Notify msg ty])"

definition fetchTickets :: "admin_state \<Rightarrow> ticket list response \<Rightarrow> admin_state \<times> effect list" where
  "fetchTickets s resp =
     (let req = Http \<lparr> meth = GET, url = API_URL @ ''/tickets'', body = NoBody \<rparr>
      in case resp of
           Ok data \<Rightarrow> (s\<lparr>tickets := data\<rparr>, [req])
         | Failed err \<Rightarrow> (s, [req, ConsoleError ''Fetch error:'']))"

text \<open>
  \<open>approveResolution(ticketId)\<close>; \<open>draft\<close> is what
  \<open>document.getElementById(`draft-${ticketId}`)?.value\<close> yields: \<open>Undefined\<close> when there
  is no such element, the text of the area otherwise.
\<close>

definition approveResolution :: "admin_state \<Rightarrow> string \<Rightarrow> jsval \<Rightarrow> admin_state \<times> effect list" where
  "approveResolution s ticketId draft =
     (case draft of
        Str finalAnswer \<Rightarrow>
          if finalAnswer = [] then showNotification s ''Please enter a solution'' ''error''
          else
            (s\<lparr>confirmPopup := Some
                 \<lparr> p_title = ''Confirm Broadcast'',
                   p_message = ''Are you sure you want to broadcast this solution? This will resolve the ticket and update the knowledge base.'',
                   p_icon = [0x1F4E2],
                   p_ticketId = ticketId,
                   p_finalAnswer = finalAnswer \<rparr>\<rparr>, [])
      | _ \<Rightarrow> showNotification s ''Please enter a solution'' ''error'')"

text \<open>The \<open>onConfirm\<close> closure of the popup, run by the Confirm button.\<close>

definition onConfirm :: "admin_state \<Rightarrow> popup \<Rightarrow> unit response \<Rightarrow> ticket list response \<Rightarrow> admin_state \<times> effect list" where
  "onConfirm s p resp fetched =
     (let req = Http \<lparr> meth = POST, url = API_URL @ ''/broadcast'',
                       body = BroadcastBody (p_ticketId p) (p_finalAnswer p) \<rparr>
      in case resp of
           Ok _ \<Rightarrow>
             (let (s1, e1) = showNotification s ''Solution broadcasted successfully!'' ''success'';
                  (s2, e2) = fetchTickets s1 fetched
              in (s2\<lparr>confirmPopup := None\<rparr>, req # e1 @ e2))
         | Failed err \<Rightarrow>
             (let (s1, e1) = showNotification s ''Broadcast failed'' ''error''
              in (s1, req # e1)))"

definition confirm_click :: "admin_state \<Rightarrow> unit response \<Rightarrow> ticket list response \<Rightarrow> admin_state \<times> effect list" where
  "confirm_click s resp fetched =
     (case confirmPopup s of
        None \<Rightarrow> (s, [])
      | Some p \<Rightarrow> onConfirm s p resp fetched)"

definition cancel_click :: "admin_state \<Rightarrow> admin_state \<times> effect list" where
  "cancel_click s = (s\<lparr>confirmPopup := None\<rparr>, [])"

definition handleDeleteClick :: "admin_state \<Rightarrow> string \<Rightarrow> jsval \<Rightarrow> admin_state \<times> effect list" where
  "handleDeleteClick s ticketId ticketQuery = (s\<lparr>confirmDelete := Some (ticketId, ticketQuery)\<rparr>, [])"

definition deleteTicket :: "admin_state \<Rightarrow> unit response \<Rightarrow> ticket list response \<Rightarrow> admin_state \<times> effect list" where
  "deleteTicket s resp fetched =
     (case confirmDelete s of
        None \<Rightarrow> (s, [])
      | Some (ticketId, ticketQuery) \<Rightarrow>
          (let req = Http \<lparr> meth = DELETE, url = API_URL @ ''/tickets/'' @ ticketId, body = NoBody \<rparr>
           in case resp of
                Ok _ \<Rightarrow>
                  (let (s1, e1) = fetchTickets s fetched;
                       (s2, e2) = showNotification s1 ''Ticket deleted successfully'' ''success''
                   in (s2\<lparr>confirmDelete := None\<rparr>, req # e1 @ e2))
              | Failed err \<Rightarrow>
                  (let (s1, e1) = showNotification s ''Delete failed!'' ''error''
                   in (s1, req # ConsoleError ''Delete error:'' # e1))))"

definition openBroadcastModal :: "admin_state \<Rightarrow> admin_state \<times> effect list" where
  "openBroadcastModal s =
     (let s1 = (if length (selectedTicketIds s) = 0
                then s\<lparr>selectedTicketIds :=
                        map ticket_id (escalatedTickets (tickets s) (categoryFilter s) (subcategoryFilter s))\<rparr>
                else s)
      in (s1\<lparr>broadcastAllText := [], isConfirmingBroadcastAll := False, showBroadcastAll := True\<rparr>, []))"

definition toggleTicketSelection :: "admin_state \<Rightarrow> string \<Rightarrow> admin_state \<times> effect list" where
  "toggleTicketSelection s i =
     (s\<lparr>selectedTicketIds :=
          (if i \<in> set (selectedTicketIds s)
           then filter (\<lambda>tid. tid \<noteq> i) (selectedTicketIds s)
           else selectedTicketIds s @ [i])\<rparr>, [])"

text \<open>
  \<open>handleBroadcastAll\<close>; the response data carries \<open>tickets_resolved\<close>, kept as the text
  the template literal prints for it.
\<close>

definition handleBroadcastAll :: "admin_state \<Rightarrow> string response \<Rightarrow> ticket list response \<Rightarrow> admin_state \<times> effect list" where
  "handleBroadcastAll s resp fetched =
     (if length (selectedTicketIds s) = 0
      then showNotification s ''Please select at least one ticket'' ''error''
      else if trim (broadcastAllText s) = []
      then showNotification s ''Please enter a solution'' ''error''
      else if \<not> isConfirmingBroadcastAll s
      then (s\<lparr>isConfirmingBroadcastAll := True\<rparr>, [])
      else
        (let req = Http \<lparr> meth = POST, url = API_URL @ ''/broadcast_all'',
                          body = BroadcastAllBody (broadcastAllText s) (selectedTicketIds s) \<rparr>
         in case resp of
              Ok tickets_resolved \<Rightarrow>
                (let (s1, e1) = showNotification s
                                  (''Successfully resolved '' @ tickets_resolved @ '' ticket(s)!'') ''success'';
                     s2 = s1\<lparr>showBroadcastAll := False, broadcastAllText := [],
                             isConfirmingBroadcastAll := False, selectedTicketIds := []\<rparr>;
                     (s3, e3) = fetchTickets s2 fetched
                 in (s3, req # e1 @ e3))
            | Failed err \<Rightarrow>
                (let (s1, e1) = showNotification s ''Failed to broadcast solution'' ''error''
                 in (s1, req # ConsoleError ''Broadcast all error:'' # e1))))"

text \<open>
  \<open>handleAskUser\<close>. With no ticket in \<open>showAskModal\<close> the template literal of the address
  throws inside the \<open>try\<close> before anything is sent.
\<close>

definition handleAskUser :: "admin_state \<Rightarrow> unit response \<Rightarrow> ticket list response \<Rightarrow> admin_state \<times> effect list" where
  "handleAskUser s resp fetched =
     (if trim (askQuestionText s) = [] then (s, [])
      else case showAskModal s of
             None \<Rightarrow> showNotification s ''Failed to send question'' ''error''
           | Some t \<Rightarrow>
               (let req = Http \<lparr> meth = POST, url = API_URL @ ''/tickets/'' @ ticket_id t @ ''/ask'',
                                 body = AskBody (askQuestionText s) \<rparr>
                in case resp of
                     Ok _ \<Rightarrow>
                       (let (s1, e1) = showNotification s ''Question sent to user'' ''success'';
                            s2 = s1\<lparr>showAskModal := None, askQuestionText := []\<rparr>;
                            (s3, e3) = fetchTickets s2 fetched
                        in (s3, req # e1 @ e3))
                   | Failed err \<Rightarrow>
                       (let (s1, e1) = showNotification s ''Failed to send question'' ''error''
                        in (s1, req # e1))))"

section \<open>User portal\<close>

record portal_state =
  input :: string
  messages :: "message list"
  loading :: bool
  ticketCreated :: jsval

definition portal_init :: portal_state where
  "portal_init =
     \<lparr> input = [],
       messages = [\<lparr> role = ai, content = ''Hi! I'' @ [CHR 0x27] @ ''m your IT Assistant. How can I help you today?'' \<rparr>],
       loading = False,
       ticketCreated = Null \<rparr>"

text \<open>The data of the two responses the portal reads.\<close>

record analysis =
  a_response :: string
  escalation_required :: bool
  summary :: jsval

record created =
  r_ticket_id :: jsval

text \<open>How a template literal prints a value.\<close>

fun js_toString :: "jsval \<Rightarrow> string" where
  "js_toString Undefined = ''undefined''"
| "js_toString Null = ''null''"
| "js_toString (Str s) = s"

text \<open>
  \<open>createTicket(currentMessages, summary)\<close>: the query is the summary when it is truthy,
  otherwise the content of the last message of role \<open>user\<close>, otherwise the fixed text.
\<close>

definition queryText :: "message list \<Rightarrow> jsval \<Rightarrow> string" where
  "queryText currentMessages summ =
     (if truthy summ then js_toString summ
      else case find (\<lambda>m. role m = user) (rev currentMessages) of
             Some lastUserMsg \<Rightarrow> content lastUserMsg
           | None \<Rightarrow> ''Support Request'')"

definition createTicket :: "portal_state \<Rightarrow> message list \<Rightarrow> jsval \<Rightarrow> created response \<Rightarrow> portal_state \<times> effect list" where
  "createTicket s currentMessages summ resp =
     (let req = Http \<lparr> meth = POST, url = ''http://localhost:8000/tickets'',
                       body = TicketBody (queryText currentMessages summ) (Some currentMessages) True \<rparr>
      in case resp of
           Ok res \<Rightarrow>
             (s\<lparr>ticketCreated := r_ticket_id res,
                messages := messages s @
                  [\<lparr> role = ai,
                     content = ''[System] Ticket '' @ js_toString (r_ticket_id res) @
                       '' has been created automatically based on our conversation. An agent will review it shortly.'' \<rparr>]\<rparr>,
              [req])
         | Failed err \<Rightarrow> (s, [req, ConsoleError ''Failed to create ticket automatically'']))"

definition setInput :: "portal_state \<Rightarrow> string \<Rightarrow> portal_state" where
  "setInput s v = s\<lparr>input := v\<rparr>"

definition handleSend :: "portal_state \<Rightarrow> analysis response \<Rightarrow> created response \<Rightarrow> portal_state \<times> effect list" where
  "handleSend s analyzed ticket_resp =
     (if trim (input s) = [] \<or> loading s then (s, [])
      else
        (let userMsg = trim (input s);
             newMessages = messages s @ [\<lparr> role = user, content = userMsg \<rparr>];
             s1 = s\<lparr>messages := newMessages, input := [], loading := True\<rparr>;
             req = Http \<lparr> meth = POST, url = ''http://localhost:8000/chat/analyze'',
                           body = AnalyzeBody userMsg
                             (map (\<lambda>m. (if role m = ai then ''model'' else ''user'', content m)) newMessages) \<rparr>
         in case analyzed of
              Ok res \<Rightarrow>
                (let aiMsg = \<lparr> role = ai, content = a_response res \<rparr>;
                     updatedMessages = newMessages @ [aiMsg];
                     s2 = s1\<lparr>messages := updatedMessages\<rparr>
                 in if escalation_required res
                    then (let (s3, e3) = createTicket s2 updatedMessages (summary res) ticket_resp
                          in (s3\<lparr>loading := False\<rparr>, req # e3))
                    else (s2\<lparr>loading := False\<rparr>, [req]))
            | Failed err \<Rightarrow>
                (s1\<lparr>messages := messages s1 @
                       [\<lparr> role = ai,
                          content = ''I'' @ [CHR 0x27] @ ''m having trouble connecting. You can try asking again.'' \<rparr>],
                     loading := False\<rparr>,
                 [req])))"

fun role_upper :: "role \<Rightarrow> string" where
  "role_upper ai = ''AI''"
| "role_upper user = ''USER''"

fun join :: "string \<Rightarrow> string list \<Rightarrow> string" where
  "join sep [] = []"
| "join sep [x] = x"
| "join sep (x # y # ys) = x @ sep @ join sep (y # ys)"

definition handleEscalate :: "portal_state \<Rightarrow> created response \<Rightarrow> portal_state \<times> effect list" where
  "handleEscalate s resp =
     (let fullHistory = join [CHR 0x0A] (map (\<lambda>m. role_upper (role m) @ '': '' @ content m) (messages s));
          req = Http \<lparr> meth = POST, url = ''http://localhost:8000/tickets'',
                        body = TicketBody fullHistory None True \<rparr>
      in case resp of
           Ok res \<Rightarrow>
             (s\<lparr>ticketCreated := r_ticket_id res,
                messages := messages s @
                  [\<lparr> role = ai,
                     content = ''Checking... Ticket '' @ js_toString (r_ticket_id res) @
                       '' has been created. An agent will contact you shortly.'' \<rparr>],
                loading := False\<rparr>,
              [req])
         | Failed err \<Rightarrow> (s\<lparr>loading := False\<rparr>, [req, Alert ''Failed to create ticket.'']))"

text \<open>
  The action bar of the portal. While the flag is truthy it shows the banner "Ticket
  Active. Continuing conversation will be added to the ticket." above the form, and the
  input field changes its placeholder.
\<close>

definition ticket_active_banner :: "portal_state \<Rightarrow> bool" where
  "ticket_active_banner s = truthy (ticketCreated s)"

definition input_placeholder :: "portal_state \<Rightarrow> string" where
  "input_placeholder s =
     (if truthy (ticketCreated s) then ''Add more details...'' else ''Type your message...'')"

text \<open>
  A run of the portal: the user types, submits the form, and the back end answers. Each
  submission runs to its end before the next event.
\<close>

datatype portal_event =
    Type string
  | Send "analysis response" "created response"

fun portal_step :: "portal_state \<times> effect list \<Rightarrow> portal_event \<Rightarrow> portal_state \<times> effect list" where
  "portal_step (s, es) (Type v) = (setInput s v, es)"
| "portal_step (s, es) (Send analyzed ticket_resp) =
     (let (s', es') = handleSend s analyzed ticket_resp in (s', es @ es'))"

definition portal_run :: "portal_event list \<Rightarrow> portal_state \<times> effect list" where
  "portal_run evs = foldl portal_step (portal_init, []) evs"

definition is_ticket_creation :: "effect \<Rightarrow> bool" where
  "is_ticket_creation e =
     (case e of
        Http r \<Rightarrow> meth r = POST \<and> url r = ''http://localhost:8000/tickets''
      | _ \<Rightarrow> False)"

section \<open>Knowledge-base viewer\<close>

record kb_entry =
  e_ID :: string
  e_Category :: string
  e_Question :: string
  e_Resolution :: string

record form_data =
  f_Category :: string
  f_Question :: string
  f_Resolution :: string

record db_state =
  db_data :: "kb_entry list"
  db_viewMode :: string
  showModal :: bool
  editingEntry :: "kb_entry option"
  formData :: form_data

text \<open>
  \<open>fetchData\<close>; the time stamp \<open>lastUpdated\<close> that it also sets is not part of the
  model.
\<close>

definition fetchData :: "db_state \<Rightarrow> kb_entry list response \<Rightarrow> db_state \<times> effect list" where
  "fetchData s resp =
     (let req = Http \<lparr> meth = GET, url = API_URL @ ''/knowledge-base'', body = NoBody \<rparr>
      in case resp of
           Ok d \<Rightarrow> (s\<lparr>db_data := d\<rparr>, [req])
         | Failed err \<Rightarrow> (s, [req, ConsoleError ''DB Fetch error:'']))"

definition resetForm :: "db_state \<Rightarrow> db_state" where
  "resetForm s =
     s\<lparr>formData := \<lparr> f_Category = [], f_Question = [], f_Resolution = [] \<rparr>,
       editingEntry := None, showModal := False\<rparr>"

definition handleEdit :: "db_state \<Rightarrow> kb_entry \<Rightarrow> db_state" where
  "handleEdit s entry =
     s\<lparr>editingEntry := Some entry,
       formData := \<lparr> f_Category = e_Category entry, f_Question = e_Question entry,
                     f_Resolution = e_Resolution entry \<rparr>,
       showModal := True\<rparr>"

text \<open>\<open>handleDelete(id)\<close>; \<open>confirmed\<close> is the answer of \<open>window.confirm\<close>.\<close>

definition handleDelete :: "db_state \<Rightarrow> string \<Rightarrow> bool \<Rightarrow> unit response \<Rightarrow> kb_entry list response \<Rightarrow> db_state \<times> effect list" where
  "handleDelete s i confirmed resp fetched =
     (if \<not> confirmed then (s, [])
      else
        (let req = Http \<lparr> meth = DELETE, url = API_URL @ ''/knowledge-base/'' @ i, body = NoBody \<rparr>
         in case resp of
              Ok _ \<Rightarrow> (let (s1, e1) = fetchData s fetched in (s1, req # e1))
            | Failed err \<Rightarrow> (s, [req, Alert (''Failed to delete entry: '' @ err)])))"

definition handleSave :: "db_state \<Rightarrow> unit response \<Rightarrow> kb_entry list response \<Rightarrow> db_state \<times> effect list" where
  "handleSave s resp fetched =
     (let payload = KbBody (f_Category (formData s)) (f_Question (formData s))
                      (f_Resolution (formData s)) [];
          req = (case editingEntry s of
                   Some entry \<Rightarrow>
                     Http \<lparr> meth = PUT, url = API_URL @ ''/knowledge-base/'' @ e_ID entry, body = payload \<rparr>
                 | None \<Rightarrow>
                     Http \<lparr> meth = POST, url = API_URL @ ''/knowledge-base'', body = payload \<rparr>)
      in case resp of
           Ok _ \<Rightarrow> (let (s1, e1) = fetchData s fetched in (resetForm s1, req # e1))
         | Failed err \<Rightarrow> (s, [req, Alert (''Failed to save: '' @ err)]))"

text \<open>
  Pressing Save submits the form. Its three controls (Category, Question, Resolution)
  carry the \<open>required\<close> attribute, so the browser fires the submit event, and with it
  \<open>handleSave\<close>, only when none of them holds the empty string.
\<close>

definition submit_form :: "db_state \<Rightarrow> unit response \<Rightarrow> kb_entry list response \<Rightarrow> db_state \<times> effect list" where
  "submit_form s resp fetched =
     (if f_Category (formData s) = [] \<or> f_Question (formData s) = [] \<or> f_Resolution (formData s) = []
      then (s, [])
      else handleSave s resp fetched)"

text \<open>Reading a trace.\<close>

definition requests :: "effect list \<Rightarrow> request list" where
  "requests es = concat (map (\<lambda>e. case e of Http r \<Rightarrow> [r] | _ \<Rightarrow> []) es)"

definition user_visible :: "effect \<Rightarrow> bool" where
  "user_visible e = (case e of Notify _ _ \<Rightarrow> True | Alert _ \<Rightarrow> True | _ \<Rightarrow> False)"

section \<open>Sample data\<close>

text \<open>
  Three pending tickets of category Network that share the group of the first one, and
  a resolved ticket of the same category.
\<close>

definition mk_ticket :: "string \<Rightarrow> string \<Rightarrow> string \<Rightarrow> string \<Rightarrow> string \<Rightarrow> string \<Rightarrow> ticket" where
  "mk_ticket i q st cat sub grp =
     \<lparr> ticket_id = i, query = Str q, title = Undefined, status = Str st, category = Str cat,
       subcategory = Str sub, group_id = Str grp, ai_draft = Undefined,
       admin_draft = Undefined, history = [] \<rparr>"

definition ticket_1001 :: ticket where
  "ticket_1001 = mk_ticket ''TKT-1001'' ''Wi-Fi not working'' ''Pending'' ''Network'' ''Wi-Fi'' ''TKT-1001''"

definition ticket_1002 :: ticket where
  "ticket_1002 = mk_ticket ''TKT-1002'' ''Internet keeps dropping'' ''Pending'' ''Network'' ''Wi-Fi'' ''TKT-1001''"

definition ticket_1003 :: ticket where
  "ticket_1003 = mk_ticket ''TKT-1003'' ''Cannot connect to wireless'' ''Pending'' ''Network'' ''Wi-Fi'' ''TKT-1001''"

definition ticket_1004 :: ticket where
  "ticket_1004 = mk_ticket ''TKT-1004'' ''VPN error'' ''Resolved'' ''Network'' ''VPN'' ''TKT-1004''"

definition network_tickets :: "ticket list" where
  "network_tickets = [ticket_1001, ticket_1002, ticket_1003]"

text \<open>
  The claim about the subcategory options, read by its words: the subcategories of the
  tickets that match the category filter.
\<close>

definition claimed_subcategories :: "ticket list \<Rightarrow> string \<Rightarrow> jsval set" where
  "claimed_subcategories ts cf =
     subcategory ` set (filter (\<lambda>t. cf = ''All'' \<or> category t = Str cf) ts)"

text \<open>
  The dashboard with the three tickets loaded, the broadcast modal opened on an empty
  selection, and a solution typed into its text area.
\<close>

definition broadcast_ready :: admin_state where
  "broadcast_ready =
     (fst (openBroadcastModal (admin_init\<lparr>tickets := network_tickets\<rparr>)))\<lparr>broadcastAllText := ''Restart the router''\<rparr>"

text \<open>
  The knowledge-base viewer as it starts, an entry of the table, and the form of a new
  entry filled in except for its resolution.
\<close>

definition kb_init :: db_state where
  "kb_init =
     \<lparr> db_data = [], db_viewMode = ''table'', showModal = False, editingEntry = None,
       formData = \<lparr> f_Category = [], f_Question = [], f_Resolution = [] \<rparr> \<rparr>"

definition kb_vpn_entry :: kb_entry where
  "kb_vpn_entry =
     \<lparr> e_ID = ''7'', e_Category = ''Network'', e_Question = ''VPN will not connect'',
       e_Resolution = ''Restart the VPN client'' \<rparr>"

definition kb_new_form :: db_state where
  "kb_new_form =
     kb_init\<lparr>showModal := True,
             formData := \<lparr> f_Category = ''Network'', f_Question = ''VPN will not connect'',
                           f_Resolution = [] \<rparr>\<rparr>"

text \<open>
  The scenario of the portal: the user's message and the analysis that asks for an
  escalation and carries a summary.
\<close>

definition vpn_message :: string where
  "vpn_message = ''The VPN won'' @ [CHR 0x27] @ ''t connect''"

definition vpn_analysis :: analysis where
  "vpn_analysis =
     \<lparr> a_response = ''I have escalated this to the IT team.'', escalation_required = True,
       summary = Str ''VPN connectivity failure'' \<rparr>"

text \<open>
  Two runs of the portal: one message that is escalated, and the same followed by a second
  message that the analysis escalates again.
\<close>

definition first_ticket_run :: "portal_event list" where
  "first_ticket_run = [Type vpn_message, Send (Ok vpn_analysis) (Ok \<lparr> r_ticket_id = Str ''TKT-1001'' \<rparr>)]"

definition second_ticket_run :: "portal_event list" where
  "second_ticket_run =
     first_ticket_run @
     [Type ''It still fails'', Send (Ok vpn_analysis) (Ok \<lparr> r_ticket_id = Str ''TKT-1002'' \<rparr>)]"

text \<open>
  Two ways a handler can treat a failed request: it sends the request once and shows one
  notification or alert, or it sends the request once and shows nothing.
\<close>

definition surfaced_once :: "effect list \<Rightarrow> bool" where
  "surfaced_once es = (length (requests es) = 1 \<and> length (filter user_visible es) = 1)"

definition silent_failure :: "effect list \<Rightarrow> bool" where
  "silent_failure es = (length (requests es) = 1 \<and> filter user_visible es = [])"

text \<open>The dashboard with the Ask User modal open on a ticket.\<close>

definition ask_ready :: admin_state where
  "ask_ready =
     admin_init\<lparr>tickets := network_tickets, showAskModal := Some ticket_1002,
                askQuestionText := ''Could you please provide more details about this issue?''\<rparr>"

text \<open>
  The claim about the category icons, read by its words. Two code units are the same
  letter when they are equal or are the capital and the small form of one letter of the
  alphabet; a key occurs in a category, ignoring case, when some stretch of the category
  matches the key letter by letter.
\<close>

definition capitals :: string where
  "capitals = ''ABCDEFGHIJKLMNOPQRSTUVWXYZ''"

definition smalls :: string where
  "smalls = ''abcdefghijklmnopqrstuvwxyz''"

definition same_letter :: "char \<Rightarrow> char \<Rightarrow> bool" where
  "same_letter a b =
     (a = b \<or> (a, b) \<in> set (zip capitals smalls) \<or> (b, a) \<in> set (zip capitals smalls))"

definition occurs_ignoring_case :: "string \<Rightarrow> string \<Rightarrow> bool" where
  "occurs_ignoring_case key s = (\<exists>p m q. s = p @ m @ q \<and> list_all2 same_letter key m)"

section \<open>Properties\<close>

lemma str_includes_iff: "str_includes s k \<longleftrightarrow> (\<exists>p q. s = p @ k @ q)"
proof (induction s)
  case Nil
  then show ?case by auto
next
  case (Cons c cs)
  show ?case
  proof
    assume "str_includes (c # cs) k"
    then consider "prefix k (c # cs)" | "str_includes cs k" by auto
    then show "\<exists>p q. c # cs = p @ k @ q"
    proof cases
      case 1
      then obtain q where "c # cs = k @ q" by (auto simp: prefix_def)
      then have "c # cs = [] @ k @ q" by simp
      then show ?thesis by blast
    next
      case 2
      with Cons.IH obtain p q where "cs = p @ k @ q" by blast
      then have "c # cs = (c # p) @ k @ q" by simp
      then show ?thesis by blast
    qed
  next
    assume "\<exists>p q. c # cs = p @ k @ q"
    then obtain p q where pq: "c # cs = p @ k @ q" by blast
    show "str_includes (c # cs) k"
    proof (cases p)
      case Nil
      with pq have "prefix k (c # cs)" by (simp add: prefix_def)
      then show ?thesis by simp
    next
      case (Cons a p')
      with pq have "cs = p' @ k @ q" by simp
      with Cons.IH have "str_includes cs k" by blast
      then show ?thesis by simp
    qed
  qed
qed

subsection \<open>Evaluating the string functions\<close>

lemmas string_eval = toLowerCase_def lower_char_def char_of_def bit_0 trim_def is_space_def

lemma trim_vpn_message: "trim vpn_message = vpn_message"
  by (simp add: vpn_message_def string_eval)

lemma vpn_message_not_empty: "vpn_message \<noteq> []"
  by (simp add: vpn_message_def)

lemma trim_samples:
  "trim ''Restart the router'' = ''Restart the router''"
  "trim ''Could you please provide more details about this issue?'' =
     ''Could you please provide more details about this issue?''"
  by (simp_all add: string_eval)

lemma trim_still_fails: "trim ''It still fails'' = ''It still fails''"
  by (simp add: string_eval)

subsection \<open>Category icons\<close>

lemma icon_loop_find:
  "icon_loop tbl c =
     (case find (\<lambda>(key, icon). \<exists>p q. toLowerCase c = p @ toLowerCase key @ q) tbl of
        Some (key, icon) \<Rightarrow> icon
      | None \<Rightarrow> fallback_icon)"
  by (induction tbl) (simp_all add: str_includes_iff split: prod.splits)

lemma zip_capitals_smalls:
  "zip capitals smalls = map (\<lambda>n. (char_of n, char_of (n + 32))) [65..<91::nat]"
  by (simp add: capitals_def smalls_def char_of_def bit_0 upt_rec)

lemma case_pair_iff:
  "(a, b) \<in> set (zip capitals smalls) \<longleftrightarrow>
     65 \<le> (of_char a :: nat) \<and> (of_char a :: nat) \<le> 90 \<and> (of_char b :: nat) = of_char a + 32"
proof
  assume "(a, b) \<in> set (zip capitals smalls)"
  then obtain n :: nat where n: "65 \<le> n" "n < 91" and a: "a = char_of n" and b: "b = char_of (n + 32)"
    unfolding zip_capitals_smalls by auto
  from n have "n mod 256 = n" "(n + 32) mod 256 = n + 32" by simp_all
  with n a b show "65 \<le> (of_char a :: nat) \<and> (of_char a :: nat) \<le> 90 \<and> (of_char b :: nat) = of_char a + 32"
    by (simp add: of_char_of)
next
  assume h: "65 \<le> (of_char a :: nat) \<and> (of_char a :: nat) \<le> 90 \<and> (of_char b :: nat) = of_char a + 32"
  define n :: nat where "n = of_char a"
  have a: "a = char_of n" by (simp add: n_def)
  have "b = char_of (of_char b :: nat)" by simp
  with h have b: "b = char_of (n + 32)" by (simp add: n_def)
  from h have "n \<in> set [65..<91]" unfolding set_upt by (simp add: n_def)
  then have "(char_of n, char_of (n + 32)) \<in> set (map (\<lambda>n. (char_of n, char_of (n + 32))) [65..<91::nat])"
    unfolding set_map by (rule imageI)
  with a b show "(a, b) \<in> set (zip capitals smalls)"
    unfolding zip_capitals_smalls by simp
qed

lemma of_char_lower_char:
  "(of_char (lower_char c) :: nat) =
     (if (65 \<le> (of_char c :: nat) \<and> (of_char c :: nat) \<le> 90) \<or>
         (192 \<le> (of_char c :: nat) \<and> (of_char c :: nat) \<le> 222 \<and> (of_char c :: nat) \<noteq> 215)
      then of_char c + 32 else of_char c)"
  by (auto simp: lower_char_def Let_def of_char_of)

lemma lower_code_eq_iff:
  fixes n m :: nat
  assumes "m < 128"
  shows "(if (65 \<le> n \<and> n \<le> 90) \<or> (192 \<le> n \<and> n \<le> 222 \<and> n \<noteq> 215) then n + 32 else n) =
         (if (65 \<le> m \<and> m \<le> 90) \<or> (192 \<le> m \<and> m \<le> 222 \<and> m \<noteq> 215) then m + 32 else m)
         \<longleftrightarrow>
         n = m \<or> (65 \<le> m \<and> m \<le> 90 \<and> n = m + 32) \<or> (65 \<le> n \<and> n \<le> 90 \<and> m = n + 32)"
  using assms by (simp split: if_splits) arith

lemma lower_char_eq_iff:
  assumes "(of_char k :: nat) < 128"
  shows "lower_char x = lower_char k \<longleftrightarrow> same_letter k x"
proof -
  have "lower_char x = lower_char k \<longleftrightarrow> (of_char (lower_char x) :: nat) = of_char (lower_char k)"
    by simp
  also have "\<dots> \<longleftrightarrow>
      (of_char x :: nat) = of_char k \<or>
      (65 \<le> (of_char k :: nat) \<and> (of_char k :: nat) \<le> 90 \<and> (of_char x :: nat) = of_char k + 32) \<or>
      (65 \<le> (of_char x :: nat) \<and> (of_char x :: nat) \<le> 90 \<and> (of_char k :: nat) = of_char x + 32)"
    unfolding of_char_lower_char by (rule lower_code_eq_iff [OF assms])
  also have "\<dots> \<longleftrightarrow> same_letter k x"
    unfolding same_letter_def case_pair_iff by (simp add: eq_commute [of k x])
  finally show ?thesis .
qed

lemma map_eq_iff_list_all2:
  "map f xs = map g ys \<longleftrightarrow> list_all2 (\<lambda>x y. f x = g y) xs ys"
proof -
  have "map f xs = map g ys \<longleftrightarrow> list_all2 (=) (map f xs) (map g ys)"
    by (simp add: list.rel_eq)
  then show ?thesis by (simp add: list.rel_map)
qed

lemma lower_key_eq_iff:
  assumes "list_all (\<lambda>k. (of_char k :: nat) < 128) key"
  shows "toLowerCase m = toLowerCase key \<longleftrightarrow> list_all2 same_letter key m"
proof -
  have "toLowerCase m = toLowerCase key \<longleftrightarrow> list_all2 (\<lambda>x k. lower_char x = lower_char k) m key"
    by (simp add: toLowerCase_def map_eq_iff_list_all2)
  also have "\<dots> \<longleftrightarrow> list_all2 (\<lambda>k x. lower_char x = lower_char k) key m"
    by (rule list_all2_conv_all_nth [THEN trans]) (auto simp: list_all2_conv_all_nth)
  also have "\<dots> \<longleftrightarrow> list_all2 same_letter key m"
  proof -
    have pw: "\<And>k x. k \<in> set key \<Longrightarrow> (lower_char x = lower_char k) = same_letter k x"
      using assms by (simp add: list_all_iff lower_char_eq_iff)
    show ?thesis
      by (rule iffI; erule list.rel_mono_strong; simp add: pw)
  qed
  finally show ?thesis .
qed

lemma includes_lower_iff:
  assumes "list_all (\<lambda>k. (of_char k :: nat) < 128) key"
  shows "(\<exists>p q. toLowerCase c = p @ toLowerCase key @ q) \<longleftrightarrow> occurs_ignoring_case key c"
proof
  assume "\<exists>p q. toLowerCase c = p @ toLowerCase key @ q"
  then obtain p q where "map lower_char c = p @ (toLowerCase key @ q)"
    by (auto simp: toLowerCase_def)
  then have "\<exists>us vs. c = us @ vs \<and> p = map lower_char us \<and> toLowerCase key @ q = map lower_char vs"
    by (simp only: map_eq_append_conv)
  then obtain c1 r where c: "c = c1 @ r" and r: "toLowerCase key @ q = map lower_char r"
    by blast
  from r have "map lower_char r = toLowerCase key @ q" by (rule sym)
  then have "\<exists>us vs. r = us @ vs \<and> toLowerCase key = map lower_char us \<and> q = map lower_char vs"
    by (simp only: map_eq_append_conv)
  then obtain m c3 where r': "r = m @ c3" and m: "toLowerCase key = map lower_char m"
    by blast
  from m have "list_all2 same_letter key m"
    using lower_key_eq_iff [OF assms, of m] by (simp add: toLowerCase_def)
  with c r' have "c = c1 @ m @ c3 \<and> list_all2 same_letter key m" by simp
  then show "occurs_ignoring_case key c"
    unfolding occurs_ignoring_case_def by blast
next
  assume "occurs_ignoring_case key c"
  then obtain p m q where c: "c = p @ m @ q" and m: "list_all2 same_letter key m"
    unfolding occurs_ignoring_case_def by blast
  from m have "toLowerCase m = toLowerCase key"
    using lower_key_eq_iff [OF assms, of m] by simp
  with c have "toLowerCase c = toLowerCase p @ toLowerCase key @ toLowerCase q"
    by (simp add: toLowerCase_def)
  then show "\<exists>p q. toLowerCase c = p @ toLowerCase key @ q" by blast
qed

lemma iconMap_keys_ascii:
  "list_all (\<lambda>(key, icon). list_all (\<lambda>k. (of_char k :: nat) < 128) key) iconMap"
  by (simp add: iconMap_def)

lemma getCategoryIcon_find:
  "getCategoryIcon c =
     (case find (\<lambda>(key, icon). occurs_ignoring_case key c) iconMap of
        Some (key, icon) \<Rightarrow> icon
      | None \<Rightarrow> fallback_icon)"
proof -
  have "find (\<lambda>(key, icon). \<exists>p q. toLowerCase c = p @ toLowerCase key @ q) iconMap =
        find (\<lambda>(key, icon). occurs_ignoring_case key c) iconMap"
  proof (rule find_cong [OF refl])
    fix e assume "e \<in> set iconMap"
    with iconMap_keys_ascii have "list_all (\<lambda>k. (of_char k :: nat) < 128) (fst e)"
      by (auto simp: list_all_iff)
    then show "(case e of (key, icon) \<Rightarrow> \<exists>p q. toLowerCase c = p @ toLowerCase key @ q) =
               (case e of (key, icon) \<Rightarrow> occurs_ignoring_case key c)"
      by (cases e) (simp add: includes_lower_iff)
  qed
  then show ?thesis by (simp add: getCategoryIcon_def icon_loop_find)
qed

text \<open>
  Claim C10. \<open>getCategoryIcon\<close> is a function of the category string alone. Its result is
  the icon of the first entry of the keyword table below, in the order written, whose
  key occurs in the category when case is ignored, and the clipboard glyph U+1F4CB when
  no key occurs. So a category naming both a network and a VPN gets the Network icon,
  the earlier entry; capitals and small letters make no difference; a category naming
  only the VPN gets the lock, and one naming no key gets the fallback.
\<close>

theorem getCategoryIcon_keyword_table:
  "getCategoryIcon c =
     (case find (\<lambda>(key, icon). occurs_ignoring_case key c)
     [(''Network'', [0x1F310]),
      (''Hardware'', [0x1F6E0, 0xFE0F]),
      (''Software'', [0x1F4BB]),
      (''Account'', [0x1F464]),
      (''Facility'', [0x1F3E2]),
      (''Password'', [0x1F511]),
      (''VPN'', [0x1F512]),
      (''Wi-Fi'', [0x1F4E1]),
      (''Printer'', [0x1F5A8, 0xFE0F]),
      (''Access'', [0x1F513]),
      (''Email'', [0x1F4E7]),
      (''Laptop'', [0x1F4BB]),
      (''Desktop'', [0x1F5A5, 0xFE0F]),
      (''Monitor'', [0x1F5A5, 0xFE0F]),
      (''Keyboard'', [0x2328, 0xFE0F]),
      (''Mouse'', [0x1F5B1, 0xFE0F]),
      (''License'', [0x1F4DC]),
      (''Permission'', [0x1F6E1, 0xFE0F]),
      (''Slack'', [0x1F4AC]),
      (''Zoom'', [0x1F4F9]),
      (''Azure'', [0x2601, 0xFE0F]),
      (''AWS'', [0x2601, 0xFE0F]),
      (''HR'', [0x1F465]),
      (''Finance'', [0x1F4B0]),
      (''Security'', [0x1F6E1, 0xFE0F]),
      (''Meeting'', [0x1F91D]),
      (''Audio'', [0x1F50A]),
      (''Video'', [0x1F3AC])]
      of
        Some (key, icon) \<Rightarrow> icon
      | None \<Rightarrow> [0x1F4CB])
   \<and> getCategoryIcon ''My VPN Network'' = [0x1F310]
   \<and> getCategoryIcon ''NETWORK'' = [0x1F310]
   \<and> getCategoryIcon ''vpn access'' = [0x1F512]
   \<and> getCategoryIcon ''Coffee'' = [0x1F4CB]"
proof -
  have "getCategoryIcon ''My VPN Network'' = [0x1F310]"
       "getCategoryIcon ''NETWORK'' = [0x1F310]"
       "getCategoryIcon ''vpn access'' = [0x1F512]"
       "getCategoryIcon ''Coffee'' = [0x1F4CB]"
    by (simp_all add: getCategoryIcon_def iconMap_def fallback_icon_def string_eval)
  moreover note getCategoryIcon_find [of c, unfolded iconMap_def fallback_icon_def]
  ultimately show ?thesis by blast
qed

lemma occurs_ignoring_case_includes:
  "list_all (\<lambda>k. (of_char k :: nat) < 128) key \<Longrightarrow>
   occurs_ignoring_case key c = str_includes (toLowerCase c) (toLowerCase key)"
  by (simp add: includes_lower_iff [symmetric] str_includes_iff)

theorem getCategoryIcon_keyword_table_witness:
  "occurs_ignoring_case ''VPN'' ''My VPN Network'' \<and>
   occurs_ignoring_case ''Network'' ''My VPN Network'' \<and>
   getCategoryIcon ''My VPN Network'' = [0x1F310] \<and>
   occurs_ignoring_case ''VPN'' ''vpn access'' \<and>
   \<not> occurs_ignoring_case ''Network'' ''vpn access'' \<and>
   getCategoryIcon ''vpn access'' = [0x1F512] \<and>
   getCategoryIcon ''Coffee'' = [0x1F4CB]"
  using getCategoryIcon_keyword_table [of "''Coffee''"]
  by (simp add: occurs_ignoring_case_includes string_eval)

subsection \<open>The escalated queue\<close>

text \<open>
  Claim C2. A ticket is in the escalated set exactly when it is in the ticket list, its
  status is Pending or Awaiting Info, the category filter is All or equals its category,
  and the subcategory filter is All or equals its subcategory. Hence under a category
  filter other than All every escalated ticket has that category and one of the two
  statuses.
\<close>

theorem escalated_iff:
  "(t \<in> set (escalatedTickets ts cf sf) \<longleftrightarrow>
      t \<in> set ts \<and>
      (status t = Str ''Pending'' \<or> status t = Str ''Awaiting Info'') \<and>
      (cf = ''All'' \<or> category t = Str cf) \<and>
      (sf = ''All'' \<or> subcategory t = Str sf))
   \<and> (cf \<noteq> ''All'' \<longrightarrow>
        (\<forall>u \<in> set (escalatedTickets ts cf sf).
           category u = Str cf \<and> (status u = Str ''Pending'' \<or> status u = Str ''Awaiting Info'')))"
  by (auto simp: escalatedTickets_def escalated_def)

theorem escalated_iff_witness:
  "''Network'' \<noteq> ''All'' \<and>
   ticket_1002 \<in> set (escalatedTickets [ticket_1004, ticket_1002] ''Network'' ''All'') \<and>
   ticket_1004 \<notin> set (escalatedTickets [ticket_1004, ticket_1002] ''Network'' ''All'') \<and>
   list_all (\<lambda>u. category u = Str ''Network'' \<and> status u = Str ''Pending'')
     (escalatedTickets [ticket_1004, ticket_1002] ''Network'' ''All'')"
  using escalated_iff [of ticket_1002 "[ticket_1004, ticket_1002]" "''Network''" "''All''"]
        escalated_iff [of ticket_1004 "[ticket_1004, ticket_1002]" "''Network''" "''All''"]
  by (simp add: escalatedTickets_def escalated_def ticket_1002_def ticket_1004_def
        mk_ticket_def)

subsection \<open>Subcategory options\<close>

lemma set_foldl_set_add: "set (foldl set_add acc xs) = set acc \<union> set xs"
  by (induction xs arbitrary: acc) (auto simp: set_add_def)

lemma distinct_foldl_set_add: "distinct acc \<Longrightarrow> distinct (foldl set_add acc xs)"
  by (induction xs arbitrary: acc) (auto simp: set_add_def)

lemma set_new_Set: "set (new_Set xs) = set xs"
  by (simp add: new_Set_def set_foldl_set_add)

lemma distinct_new_Set: "distinct (new_Set xs)"
  by (simp add: new_Set_def distinct_foldl_set_add)

text \<open>
  Claim C6, as stated, fails: a resolved ticket matches the category filter, yet its
  subcategory is not among the options.
\<close>

theorem subcategories_counterexample:
  "set (tl (activeSubcategories [ticket_1004] ''Network'')) \<noteq>
     claimed_subcategories [ticket_1004] ''Network''"
  by (simp add: activeSubcategories_def claimed_subcategories_def new_Set_def ticket_1004_def
        mk_ticket_def)

text \<open>
  Claim C6, amended. The subcategory options are All followed, without duplicates, by
  the non-empty subcategories of the tickets whose status is Pending or Awaiting Info
  and whose category equals the current category filter.
\<close>

theorem activeSubcategories_pending:
  "hd (activeSubcategories ts cf) = Str ''All'' \<and>
   distinct (tl (activeSubcategories ts cf)) \<and>
   set (tl (activeSubcategories ts cf)) =
     {v. truthy v \<and>
         (\<exists>t. t \<in> set ts \<and> subcategory t = v \<and> category t = Str cf \<and>
              (status t = Str ''Pending'' \<or> status t = Str ''Awaiting Info''))}"
  by (auto simp: activeSubcategories_def set_new_Set distinct_new_Set)

lemma activeSubcategories_example:
  "activeSubcategories (network_tickets @ [ticket_1004]) ''Network'' = [Str ''All'', Str ''Wi-Fi'']"
  by (simp add: activeSubcategories_def new_Set_def set_add_def network_tickets_def
        ticket_1001_def ticket_1002_def ticket_1003_def ticket_1004_def mk_ticket_def)

subsection \<open>Ticket groups\<close>

lemma ticket_card_independent: "ticket_card ts sel t = ticket_card [] sel t"
  by (simp add: ticket_card_def Let_def)

text \<open>
  Claim C4 at three pending Network tickets that share the group TKT-1001: for the card
  of TKT-1002 the count of other tickets is computed as 2 and the ticket counts as
  grouped, but the card shows the same content as when TKT-1002 is the only ticket, and
  neither a group nor a count is part of it.
\<close>

theorem group_count_not_rendered:
  "otherCount network_tickets ticket_1002 = 2 \<and>
   isGrouped network_tickets ticket_1002 \<and>
   ticket_card network_tickets [] ticket_1002 = ticket_card [ticket_1002] [] ticket_1002 \<and>
   ticket_card network_tickets [] ticket_1002 =
     \<lparr> card_key = ''TKT-1002'', card_selected = False,
       category_badge = Some (Str ''#3B82F6'', [0x1F310], ''Network''),
       subcategory_tag = Some ''#Wi-Fi'', shown_id = ''TKT-1002'',
       ticket_subject = Str ''Support Request'', ticket_query = Str ''Internet keeps dropping'',
       technical_context = None, awaiting_badge = False, draft_default = Undefined,
       ticket_history = [] \<rparr>"
  by (simp add: otherCount_def isGrouped_def groupedTickets_def ticket_card_def catStyle_def
        categoryStyles_def js_or_def network_tickets_def ticket_1001_def ticket_1002_def
        ticket_1003_def mk_ticket_def)

subsection \<open>Broadcast to all\<close>

text \<open>
  Claim C5. Opening the broadcast modal with an empty selection selects all visible
  escalated tickets, sends nothing and starts outside the confirmation step. With a
  non-empty selection and a non-blank solution, the first submission only enters the
  confirmation step, with no effect besides; the submission that follows it sends one
  POST to /broadcast_all carrying the selected ticket ids and the solution, followed only
  by the refresh of the ticket list when the POST succeeds.
\<close>

theorem broadcast_all_two_step:
  "(selectedTicketIds s = [] \<longrightarrow>
      selectedTicketIds (fst (openBroadcastModal s)) =
        map ticket_id (escalatedTickets (tickets s) (categoryFilter s) (subcategoryFilter s)))
   \<and> snd (openBroadcastModal s) = []
   \<and> \<not> isConfirmingBroadcastAll (fst (openBroadcastModal s))
   \<and> (selectedTicketIds s \<noteq> [] \<and> trim (broadcastAllText s) \<noteq> [] \<and> \<not> isConfirmingBroadcastAll s \<longrightarrow>
        handleBroadcastAll s resp fetched = (s\<lparr>isConfirmingBroadcastAll := True\<rparr>, [])
        \<and> requests (snd (handleBroadcastAll (s\<lparr>isConfirmingBroadcastAll := True\<rparr>) resp' fetched')) =
            \<lparr> meth = POST, url = API_URL @ ''/broadcast_all'',
              body = BroadcastAllBody (broadcastAllText s) (selectedTicketIds s) \<rparr> #
            (case resp' of
               Ok n \<Rightarrow> [\<lparr> meth = GET, url = API_URL @ ''/tickets'', body = NoBody \<rparr>]
             | Failed err \<Rightarrow> []))"
  by (auto simp: showNotification_def fetchTickets_def openBroadcastModal_def
        handleBroadcastAll_def requests_def API_URL_def Let_def split_beta
        split: response.splits)

theorem broadcast_all_two_step_witness:
  "selectedTicketIds (admin_init\<lparr>tickets := network_tickets\<rparr>) = [] \<and>
   selectedTicketIds (fst (openBroadcastModal (admin_init\<lparr>tickets := network_tickets\<rparr>))) =
     [''TKT-1001'', ''TKT-1002'', ''TKT-1003''] \<and>
   selectedTicketIds broadcast_ready \<noteq> [] \<and>
   trim (broadcastAllText broadcast_ready) \<noteq> [] \<and>
   \<not> isConfirmingBroadcastAll broadcast_ready \<and>
   snd (handleBroadcastAll broadcast_ready (Ok ''3'') (Ok [])) = [] \<and>
   requests (snd (handleBroadcastAll (fst (handleBroadcastAll broadcast_ready (Ok ''3'') (Ok []))) (Ok ''3'') (Ok []))) =
     [\<lparr> meth = POST, url = ''http://localhost:8000/broadcast_all'',
        body = BroadcastAllBody ''Restart the router'' [''TKT-1001'', ''TKT-1002'', ''TKT-1003''] \<rparr>,
      \<lparr> meth = GET, url = ''http://localhost:8000/tickets'', body = NoBody \<rparr>]"
  using broadcast_all_two_step [of "admin_init\<lparr>tickets := network_tickets\<rparr>"]
        broadcast_all_two_step [of broadcast_ready "Ok ''3''" "Ok []" "Ok ''3''" "Ok []"]
  by (simp add: broadcast_ready_def openBroadcastModal_def escalatedTickets_def escalated_def
        network_tickets_def ticket_1001_def ticket_1002_def ticket_1003_def mk_ticket_def
        admin_init_def trim_samples showNotification_def fetchTickets_def
        handleBroadcastAll_def requests_def API_URL_def Let_def split_beta)

subsection \<open>Broadcast of one ticket\<close>

text \<open>
  Claim C8. When the draft area of the ticket is empty (or missing), broadcast-one sends
  nothing, shows the error notification and opens no popup. When the draft is not empty,
  approving sends nothing and opens the confirmation popup; cancelling the popup sends
  nothing and closes it; confirming sends the POST to /broadcast with the ticket id and
  the draft as final answer, followed only by the refresh of the ticket list when the
  POST succeeds.
\<close>

theorem broadcast_one_confirm:
  "(\<not> truthy draft \<longrightarrow>
      snd (approveResolution s tid draft) = [Notify ''Please enter a solution'' ''error''] \<and>
      requests (snd (approveResolution s tid draft)) = [] \<and>
      confirmPopup (fst (approveResolution s tid draft)) = confirmPopup s)
   \<and> (a \<noteq> [] \<longrightarrow>
        snd (approveResolution s tid (Str a)) = [] \<and>
        cancel_click (fst (approveResolution s tid (Str a))) =
          ((fst (approveResolution s tid (Str a)))\<lparr>confirmPopup := None\<rparr>, []) \<and>
        requests (snd (confirm_click (fst (approveResolution s tid (Str a))) resp fetched)) =
          \<lparr> meth = POST, url = API_URL @ ''/broadcast'', body = BroadcastBody tid a \<rparr> #
          (case resp of
             Ok u \<Rightarrow> [\<lparr> meth = GET, url = API_URL @ ''/tickets'', body = NoBody \<rparr>]
           | Failed err \<Rightarrow> []))"
  by (cases draft)
     (auto simp: showNotification_def fetchTickets_def approveResolution_def onConfirm_def
        confirm_click_def cancel_click_def requests_def API_URL_def Let_def split_beta
        split: response.splits)

theorem broadcast_one_confirm_witness:
  "\<not> truthy (Str []) \<and>
   snd (approveResolution admin_init ''TKT-1002'' (Str [])) = [Notify ''Please enter a solution'' ''error''] \<and>
   ''Restart the router'' \<noteq> [] \<and>
   snd (approveResolution admin_init ''TKT-1002'' (Str ''Restart the router'')) = [] \<and>
   snd (cancel_click (fst (approveResolution admin_init ''TKT-1002'' (Str ''Restart the router'')))) = [] \<and>
   requests (snd (confirm_click (fst (approveResolution admin_init ''TKT-1002'' (Str ''Restart the router'')))
                    (Ok ()) (Ok network_tickets))) =
     [\<lparr> meth = POST, url = ''http://localhost:8000/broadcast'',
        body = BroadcastBody ''TKT-1002'' ''Restart the router'' \<rparr>,
      \<lparr> meth = GET, url = ''http://localhost:8000/tickets'', body = NoBody \<rparr>]"
  using broadcast_one_confirm [of "Str []" admin_init "''TKT-1002''" "''Restart the router''" "Ok ()" "Ok network_tickets"]
  by (simp add: API_URL_def)

subsection \<open>Saving a knowledge-base entry\<close>

text \<open>
  Claim C7. Submitting the entry form with an empty Category, Question or Resolution
  changes nothing and sends nothing. With all three filled in, submitting sends one
  request carrying the three fields: a POST to /knowledge-base for a new entry, a PUT to
  /knowledge-base/ID for the entry being edited; the only request after it is the refresh
  of the list when the save succeeds.
\<close>

theorem kb_save_required:
  "(f_Category (formData k) = [] \<or> f_Question (formData k) = [] \<or> f_Resolution (formData k) = [] \<longrightarrow>
      submit_form k resp fetched = (k, []))
   \<and> (f_Category (formData k) \<noteq> [] \<and> f_Question (formData k) \<noteq> [] \<and> f_Resolution (formData k) \<noteq> [] \<longrightarrow>
        requests (snd (submit_form k resp fetched)) =
          (case editingEntry k of
             None \<Rightarrow>
               \<lparr> meth = POST, url = API_URL @ ''/knowledge-base'',
                 body = KbBody (f_Category (formData k)) (f_Question (formData k)) (f_Resolution (formData k)) [] \<rparr>
           | Some entry \<Rightarrow>
               \<lparr> meth = PUT, url = API_URL @ ''/knowledge-base/'' @ e_ID entry,
                 body = KbBody (f_Category (formData k)) (f_Question (formData k)) (f_Resolution (formData k)) [] \<rparr>) #
          (case resp of
             Ok u \<Rightarrow> [\<lparr> meth = GET, url = API_URL @ ''/knowledge-base'', body = NoBody \<rparr>]
           | Failed err \<Rightarrow> []))"
  by (auto simp: fetchData_def resetForm_def handleSave_def submit_form_def requests_def
        API_URL_def Let_def split_beta split: response.splits option.splits)

theorem kb_save_required_witness:
  "f_Resolution (formData kb_new_form) = [] \<and>
   submit_form kb_new_form (Ok ()) (Ok []) = (kb_new_form, []) \<and>
   f_Category (formData (handleEdit kb_init kb_vpn_entry)) \<noteq> [] \<and>
   f_Question (formData (handleEdit kb_init kb_vpn_entry)) \<noteq> [] \<and>
   f_Resolution (formData (handleEdit kb_init kb_vpn_entry)) \<noteq> [] \<and>
   requests (snd (submit_form (handleEdit kb_init kb_vpn_entry) (Ok ()) (Ok []))) =
     [\<lparr> meth = PUT, url = ''http://localhost:8000/knowledge-base/7'',
        body = KbBody ''Network'' ''VPN will not connect'' ''Restart the VPN client'' [] \<rparr>,
      \<lparr> meth = GET, url = ''http://localhost:8000/knowledge-base'', body = NoBody \<rparr>]"
  using kb_save_required [of kb_new_form "Ok ()" "Ok []"]
        kb_save_required [of "handleEdit kb_init kb_vpn_entry" "Ok ()" "Ok []"]
  by (simp add: kb_new_form_def kb_init_def kb_vpn_entry_def handleEdit_def API_URL_def)

subsection \<open>Escalation from the chat\<close>

lemma find_rev_last:
  "find P (rev xs) = (if filter P xs = [] then None else Some (last (filter P xs)))"
  by (induction xs rule: rev_induct) auto

text \<open>
  Claim C3. The query of the ticket that \<open>createTicket\<close> asks for is the summary when
  there is one (a non-empty string); without a summary it is the content of the last
  message of role user, and the text Support Request when the conversation has no such
  message. When a submitted message is analysed with \<open>escalation_required\<close> set, the
  portal sends the analysis request and then one ticket request, whose query is the
  summary when there is one and otherwise the message just sent, which is then the most
  recent user message.
\<close>

theorem escalation_query:
  "(sm \<noteq> [] \<longrightarrow> queryText msgs (Str sm) = sm)
   \<and> (\<not> truthy v \<and> filter (\<lambda>m. role m = user) msgs \<noteq> [] \<longrightarrow>
        queryText msgs v = content (last (filter (\<lambda>m. role m = user) msgs)))
   \<and> (\<not> truthy v \<and> filter (\<lambda>m. role m = user) msgs = [] \<longrightarrow>
        queryText msgs v = ''Support Request'')
   \<and> (trim (input s) \<noteq> [] \<and> \<not> loading s \<and> escalation_required res \<longrightarrow>
        requests (snd (handleSend s (Ok res) tr)) =
          [\<lparr> meth = POST, url = ''http://localhost:8000/chat/analyze'',
             body = AnalyzeBody (trim (input s))
                      (map (\<lambda>m. (if role m = ai then ''model'' else ''user'', content m))
                         (messages s @ [\<lparr> role = user, content = trim (input s) \<rparr>])) \<rparr>,
           \<lparr> meth = POST, url = ''http://localhost:8000/tickets'',
             body = TicketBody
                      (if truthy (summary res) then js_toString (summary res) else trim (input s))
                      (Some (messages s @ [\<lparr> role = user, content = trim (input s) \<rparr>,
                                           \<lparr> role = ai, content = a_response res \<rparr>]))
                      True \<rparr>])"
  by (auto simp: createTicket_def handleSend_def requests_def queryText_def find_rev_last
        Let_def split_beta split: response.splits)

theorem escalation_query_witness:
  "trim (input (setInput portal_init vpn_message)) \<noteq> [] \<and>
   \<not> loading (setInput portal_init vpn_message) \<and>
   escalation_required vpn_analysis \<and>
   map body (filter (\<lambda>r. url r = ''http://localhost:8000/tickets'')
     (requests (snd (handleSend (setInput portal_init vpn_message) (Ok vpn_analysis)
                       (Ok \<lparr> r_ticket_id = Str ''TKT-1001'' \<rparr>))))) =
     [TicketBody ''VPN connectivity failure''
        (Some (messages portal_init @ [\<lparr> role = user, content = vpn_message \<rparr>,
                                       \<lparr> role = ai, content = ''I have escalated this to the IT team.'' \<rparr>]))
        True] \<and>
   ''VPN connectivity failure'' \<noteq> [] \<and>
   queryText [\<lparr> role = user, content = vpn_message \<rparr>] (Str ''VPN connectivity failure'') = ''VPN connectivity failure'' \<and>
   \<not> truthy Undefined \<and>
   queryText [\<lparr> role = user, content = vpn_message \<rparr>, \<lparr> role = ai, content = ''Hello'' \<rparr>] Undefined = vpn_message \<and>
   queryText [\<lparr> role = ai, content = ''Hello'' \<rparr>] Undefined = ''Support Request''"
  using escalation_query [of "''VPN connectivity failure''" "[\<lparr> role = user, content = vpn_message \<rparr>]" Undefined
           "setInput portal_init vpn_message" vpn_analysis "Ok \<lparr> r_ticket_id = Str ''TKT-1001'' \<rparr>"]
        escalation_query [of "''VPN connectivity failure''"
           "[\<lparr> role = user, content = vpn_message \<rparr>, \<lparr> role = ai, content = ''Hello'' \<rparr>]" Undefined
           "setInput portal_init vpn_message" vpn_analysis "Ok \<lparr> r_ticket_id = Str ''TKT-1001'' \<rparr>"]
        escalation_query [of "''VPN connectivity failure''"
           "[\<lparr> role = ai, content = ''Hello'' \<rparr>]" Undefined
           "setInput portal_init vpn_message" vpn_analysis "Ok \<lparr> r_ticket_id = Str ''TKT-1001'' \<rparr>"]
  by (simp add: setInput_def portal_init_def vpn_analysis_def trim_vpn_message vpn_message_not_empty)

subsection \<open>Tickets created from the chat\<close>

lemma handleSend_ignores_flag:
  "snd (handleSend (s\<lparr>ticketCreated := v\<rparr>) analyzed tr) = snd (handleSend s analyzed tr)
   \<and> (trim (input s) \<noteq> [] \<and> \<not> loading s \<and> escalation_required res \<longrightarrow>
        length (filter is_ticket_creation (snd (handleSend s (Ok res) tr))) = 1)"
  by (auto simp: createTicket_def handleSend_def is_ticket_creation_def Let_def split_beta
        split: response.splits)

text \<open>
  Claim C1 at a session of two messages that the analysis both escalates. The first
  message creates ticket TKT-1001: the flag holds its id, the banner that promises to add
  the rest of the conversation to that ticket is shown and the placeholder asks for more
  details. The second message nevertheless sends a second ticket-creation request, with
  the same query, and the flag moves on to TKT-1002.
\<close>

theorem second_ticket_created:
  "ticketCreated (fst (portal_run first_ticket_run)) = Str ''TKT-1001'' \<and>
   ticket_active_banner (fst (portal_run first_ticket_run)) \<and>
   input_placeholder (fst (portal_run first_ticket_run)) = ''Add more details...'' \<and>
   length (filter is_ticket_creation (snd (portal_run first_ticket_run))) = 1 \<and>
   length (filter is_ticket_creation (snd (portal_run second_ticket_run))) = 2 \<and>
   map (\<lambda>r. b_query (body r))
     (requests (filter is_ticket_creation (snd (portal_run second_ticket_run)))) =
     [''VPN connectivity failure'', ''VPN connectivity failure''] \<and>
   ticketCreated (fst (portal_run second_ticket_run)) = Str ''TKT-1002''"
  by (simp add: portal_run_def first_ticket_run_def second_ticket_run_def createTicket_def
        handleSend_def setInput_def is_ticket_creation_def requests_def
        ticket_active_banner_def input_placeholder_def
        portal_init_def vpn_analysis_def queryText_def trim_vpn_message trim_still_fails
        vpn_message_not_empty Let_def split_beta)

subsection \<open>Failed requests\<close>

text \<open>
  Claim C9, as stated, fails: a failed fetch of the ticket list writes to the console and
  shows neither a notification nor an alert.
\<close>

theorem fetch_failure_counterexample:
  "length (filter user_visible (snd (fetchTickets admin_init (Failed ''Network Error'')))) \<noteq> 1 \<and>
   snd (fetchTickets admin_init (Failed ''Network Error'')) =
     [Http \<lparr> meth = GET, url = ''http://localhost:8000/tickets'', body = NoBody \<rparr>,
      ConsoleError ''Fetch error:'']"
  by (simp add: fetchTickets_def user_visible_def API_URL_def)

text \<open>
  Claim C9, amended. Every handler sends a failed request once and handles the failure
  itself. A failed mutation (broadcast, broadcast-all, ticket delete, ask, knowledge-base
  save and delete, manual escalation) shows exactly one notification or alert. A failed
  fetch of the ticket list or of the knowledge base and a failed automatic ticket
  creation show nothing (they write to the console); a failed chat analysis shows
  neither a notification nor an alert and appends one assistant message to the chat.
\<close>

theorem failures_surface:
  "surfaced_once (snd (onConfirm s p (Failed err) fetched))
   \<and> (selectedTicketIds s \<noteq> [] \<and> trim (broadcastAllText s) \<noteq> [] \<and> isConfirmingBroadcastAll s \<longrightarrow>
        surfaced_once (snd (handleBroadcastAll s (Failed err) fetched)))
   \<and> (confirmDelete s \<noteq> None \<longrightarrow> surfaced_once (snd (deleteTicket s (Failed err) fetched)))
   \<and> (trim (askQuestionText s) \<noteq> [] \<and> showAskModal s \<noteq> None \<longrightarrow>
        surfaced_once (snd (handleAskUser s (Failed err) fetched)))
   \<and> surfaced_once (snd (handleSave k (Failed err) kb_fetched))
   \<and> surfaced_once (snd (handleDelete k i True (Failed err) kb_fetched))
   \<and> surfaced_once (snd (handleEscalate ps (Failed err)))
   \<and> silent_failure (snd (fetchTickets s (Failed err)))
   \<and> silent_failure (snd (fetchData k (Failed err)))
   \<and> silent_failure (snd (createTicket ps msgs sm (Failed err)))
   \<and> (trim (input ps) \<noteq> [] \<and> \<not> loading ps \<longrightarrow>
        silent_failure (snd (handleSend ps (Failed err) tr)) \<and>
        messages (fst (handleSend ps (Failed err) tr)) =
          messages ps @
          [\<lparr> role = user, content = trim (input ps) \<rparr>,
           \<lparr> role = ai, content = ''I'' @ [CHR 0x27] @ ''m having trouble connecting. You can try asking again.'' \<rparr>])"
  by (auto simp: surfaced_once_def silent_failure_def showNotification_def fetchTickets_def
        onConfirm_def deleteTicket_def handleBroadcastAll_def handleAskUser_def fetchData_def
        handleDelete_def handleSave_def createTicket_def handleSend_def handleEscalate_def
        requests_def user_visible_def API_URL_def Let_def split_beta split: option.splits)

theorem failures_surface_witness:
  "selectedTicketIds (broadcast_ready\<lparr>isConfirmingBroadcastAll := True\<rparr>) \<noteq> [] \<and>
   trim (broadcastAllText (broadcast_ready\<lparr>isConfirmingBroadcastAll := True\<rparr>)) \<noteq> [] \<and>
   isConfirmingBroadcastAll (broadcast_ready\<lparr>isConfirmingBroadcastAll := True\<rparr>) \<and>
   snd (handleBroadcastAll (broadcast_ready\<lparr>isConfirmingBroadcastAll := True\<rparr>) (Failed ''Network Error'') (Ok [])) =
     [Http \<lparr> meth = POST, url = ''http://localhost:8000/broadcast_all'',
             body = BroadcastAllBody ''Restart the router'' [''TKT-1001'', ''TKT-1002'', ''TKT-1003''] \<rparr>,
      ConsoleError ''Broadcast all error:'',
      Notify ''Failed to broadcast solution'' ''error''] \<and>
   surfaced_once (snd (handleBroadcastAll (broadcast_ready\<lparr>isConfirmingBroadcastAll := True\<rparr>) (Failed ''Network Error'') (Ok []))) \<and>
   confirmDelete (fst (handleDeleteClick admin_init ''TKT-1002'' (Str ''Internet keeps dropping''))) \<noteq> None \<and>
   surfaced_once (snd (deleteTicket (fst (handleDeleteClick admin_init ''TKT-1002'' (Str ''Internet keeps dropping'')))
                         (Failed ''Network Error'') (Ok []))) \<and>
   trim (askQuestionText ask_ready) \<noteq> [] \<and>
   showAskModal ask_ready \<noteq> None \<and>
   surfaced_once (snd (handleAskUser ask_ready (Failed ''Network Error'') (Ok []))) \<and>
   trim (input (setInput portal_init vpn_message)) \<noteq> [] \<and>
   \<not> loading (setInput portal_init vpn_message) \<and>
   silent_failure (snd (handleSend (setInput portal_init vpn_message) (Failed ''Network Error'') (Failed ''Network Error'')))"
  using failures_surface
          [where s = "broadcast_ready\<lparr>isConfirmingBroadcastAll := True\<rparr>" and err = "''Network Error''"
             and fetched = "Ok []" and ps = "setInput portal_init vpn_message"
             and tr = "Failed ''Network Error''"]
        failures_surface
          [where s = "fst (handleDeleteClick admin_init ''TKT-1002'' (Str ''Internet keeps dropping''))"
             and err = "''Network Error''" and fetched = "Ok []"]
        failures_surface
          [where s = ask_ready and err = "''Network Error''" and fetched = "Ok []"]
  by (simp add: broadcast_ready_def ask_ready_def handleDeleteClick_def setInput_def portal_init_def
        network_tickets_def ticket_1001_def ticket_1002_def ticket_1003_def mk_ticket_def
        admin_init_def trim_samples trim_vpn_message vpn_message_not_empty
        escalatedTickets_def escalated_def showNotification_def fetchTickets_def
        openBroadcastModal_def handleBroadcastAll_def deleteTicket_def handleAskUser_def
        handleSend_def surfaced_once_def silent_failure_def requests_def user_visible_def
        API_URL_def Let_def split_beta)

end
